theory Spec2Isabelle
  imports Complex_Main "HOL-Library.Sublist"
begin

section \<open>Python strings\<close>

text \<open>
  A Python \<open>str\<close> is a sequence of Unicode code points. Each code point is a natural
  number; an ASCII literal of the source is written with \<open>cps\<close>. Python floats are
  modelled by the reals.
\<close>

type_synonym codepoint = nat
type_synonym pystr = "codepoint list"

definition cps :: "string \<Rightarrow> pystr" where
  "cps s = map of_char s"

text \<open>
  \<open>str.isspace\<close> on one code point: the code points Python 3 treats as whitespace. The
  same set is what \<open>\s\<close> matches in a \<open>str\<close> pattern, what \<open>str.strip()\<close> removes and
  what \<open>str.split()\<close> splits on.
\<close>

definition py_whitespace :: "codepoint list" where
  "py_whitespace =
     [9, 10, 11, 12, 13, 28, 29, 30, 31, 32, 133, 160, 5760,
      8192, 8193, 8194, 8195, 8196, 8197, 8198, 8199, 8200, 8201, 8202,
      8232, 8233, 8239, 8287, 12288]"

definition py_isspace :: "codepoint \<Rightarrow> bool" where
  "py_isspace c \<longleftrightarrow> c \<in> set py_whitespace"

text \<open>
  \<open>str.lower\<close>, as CPython 3.11 (Unicode 14.0.0) computes it. Every code point other than
  \<open>U+03A3\<close> and \<open>U+0130\<close> is replaced by its simple lowercase mapping; the mapping is the
  table below, whose entry \<open>(lo, hi, step, target)\<close> sends the code points
  \<open>lo, lo + step, \<dots>, hi\<close> to \<open>target, target + step, \<dots>\<close>. \<open>U+0130\<close> becomes the two
  code points \<open>U+0069 U+0307\<close>. The capital sigma \<open>U+03A3\<close> becomes the final sigma
  \<open>U+03C2\<close> when, skipping case-ignorable code points, a cased code point precedes it and
  none follows it, and \<open>U+03C3\<close> otherwise; the context is read in the original string.
\<close>

definition lower_table :: "(codepoint \<times> codepoint \<times> nat \<times> codepoint) list" where
  "lower_table =
     [(65, 90, 1, 97), (192, 214, 1, 224), (216, 222, 1, 248), (256, 302, 2, 257),
      (306, 310, 2, 307), (313, 327, 2, 314), (330, 374, 2, 331), (376, 376, 1, 255),
      (377, 381, 2, 378), (385, 385, 1, 595), (386, 388, 2, 387), (390, 390, 1, 596),
      (391, 391, 1, 392), (393, 394, 1, 598), (395, 395, 1, 396), (398, 398, 1, 477),
      (399, 399, 1, 601), (400, 400, 1, 603), (401, 401, 1, 402), (403, 403, 1, 608),
      (404, 404, 1, 611), (406, 406, 1, 617), (407, 407, 1, 616), (408, 408, 1, 409),
      (412, 412, 1, 623), (413, 413, 1, 626), (415, 415, 1, 629), (416, 420, 2, 417),
      (422, 422, 1, 640), (423, 423, 1, 424), (425, 425, 1, 643), (428, 428, 1, 429),
      (430, 430, 1, 648), (431, 431, 1, 432), (433, 434, 1, 650), (435, 437, 2, 436),
      (439, 439, 1, 658), (440, 440, 1, 441), (444, 444, 1, 445), (452, 452, 1, 454),
      (453, 453, 1, 454), (455, 455, 1, 457), (456, 456, 1, 457), (458, 458, 1, 460),
      (459, 475, 2, 460), (478, 494, 2, 479), (497, 497, 1, 499), (498, 500, 2, 499),
      (502, 502, 1, 405), (503, 503, 1, 447), (504, 542, 2, 505), (544, 544, 1, 414),
      (546, 562, 2, 547), (570, 570, 1, 11365), (571, 571, 1, 572), (573, 573, 1, 410),
      (574, 574, 1, 11366), (577, 577, 1, 578), (579, 579, 1, 384), (580, 580, 1, 649),
      (581, 581, 1, 652), (582, 590, 2, 583), (880, 882, 2, 881), (886, 886, 1, 887),
      (895, 895, 1, 1011), (902, 902, 1, 940), (904, 906, 1, 941), (908, 908, 1, 972),
      (910, 911, 1, 973), (913, 929, 1, 945), (931, 939, 1, 963), (975, 975, 1, 983),
      (984, 1006, 2, 985), (1012, 1012, 1, 952), (1015, 1015, 1, 1016),
      (1017, 1017, 1, 1010), (1018, 1018, 1, 1019), (1021, 1023, 1, 891),
      (1024, 1039, 1, 1104), (1040, 1071, 1, 1072), (1120, 1152, 2, 1121),
      (1162, 1214, 2, 1163), (1216, 1216, 1, 1231), (1217, 1229, 2, 1218),
      (1232, 1326, 2, 1233), (1329, 1366, 1, 1377), (4256, 4293, 1, 11520),
      (4295, 4295, 1, 11559), (4301, 4301, 1, 11565), (5024, 5103, 1, 43888),
      (5104, 5109, 1, 5112), (7312, 7354, 1, 4304), (7357, 7359, 1, 4349),
      (7680, 7828, 2, 7681), (7838, 7838, 1, 223), (7840, 7934, 2, 7841),
      (7944, 7951, 1, 7936), (7960, 7965, 1, 7952), (7976, 7983, 1, 7968),
      (7992, 7999, 1, 7984), (8008, 8013, 1, 8000), (8025, 8031, 2, 8017),
      (8040, 8047, 1, 8032), (8072, 8079, 1, 8064), (8088, 8095, 1, 8080),
      (8104, 8111, 1, 8096), (8120, 8121, 1, 8112), (8122, 8123, 1, 8048),
      (8124, 8124, 1, 8115), (8136, 8139, 1, 8050), (8140, 8140, 1, 8131),
      (8152, 8153, 1, 8144), (8154, 8155, 1, 8054), (8168, 8169, 1, 8160),
      (8170, 8171, 1, 8058), (8172, 8172, 1, 8165), (8184, 8185, 1, 8056),
      (8186, 8187, 1, 8060), (8188, 8188, 1, 8179), (8486, 8486, 1, 969),
      (8490, 8490, 1, 107), (8491, 8491, 1, 229), (8498, 8498, 1, 8526),
      (8544, 8559, 1, 8560), (8579, 8579, 1, 8580), (9398, 9423, 1, 9424),
      (11264, 11311, 1, 11312), (11360, 11360, 1, 11361), (11362, 11362, 1, 619),
      (11363, 11363, 1, 7549), (11364, 11364, 1, 637), (11367, 11371, 2, 11368),
      (11373, 11373, 1, 593), (11374, 11374, 1, 625), (11375, 11375, 1, 592),
      (11376, 11376, 1, 594), (11378, 11378, 1, 11379), (11381, 11381, 1, 11382),
      (11390, 11391, 1, 575), (11392, 11490, 2, 11393), (11499, 11501, 2, 11500),
      (11506, 11506, 1, 11507), (42560, 42604, 2, 42561), (42624, 42650, 2, 42625),
      (42786, 42798, 2, 42787), (42802, 42862, 2, 42803), (42873, 42875, 2, 42874),
      (42877, 42877, 1, 7545), (42878, 42886, 2, 42879), (42891, 42891, 1, 42892),
      (42893, 42893, 1, 613), (42896, 42898, 2, 42897), (42902, 42920, 2, 42903),
      (42922, 42922, 1, 614), (42923, 42923, 1, 604), (42924, 42924, 1, 609),
      (42925, 42925, 1, 620), (42926, 42926, 1, 618), (42928, 42928, 1, 670),
      (42929, 42929, 1, 647), (42930, 42930, 1, 669), (42931, 42931, 1, 43859),
      (42932, 42946, 2, 42933), (42948, 42948, 1, 42900), (42949, 42949, 1, 642),
      (42950, 42950, 1, 7566), (42951, 42953, 2, 42952), (42960, 42960, 1, 42961),
      (42966, 42968, 2, 42967), (42997, 42997, 1, 42998), (65313, 65338, 1, 65345),
      (66560, 66599, 1, 66600), (66736, 66771, 1, 66776), (66928, 66938, 1, 66967),
      (66940, 66954, 1, 66979), (66956, 66962, 1, 66995), (66964, 66965, 1, 67003),
      (68736, 68786, 1, 68800), (71840, 71871, 1, 71872), (93760, 93791, 1, 93792),
      (125184, 125217, 1, 125218)]"

text \<open>
  The code points that the sigma rule skips (\<open>Case_Ignorable\<close>), and the cased code
  points among the others.
\<close>

definition ignorable_ranges :: "(codepoint \<times> codepoint) list" where
  "ignorable_ranges =
     [(39, 39), (46, 46), (58, 58), (94, 94), (96, 96), (168, 168), (173, 173), (175, 175),
      (180, 180), (183, 184), (688, 879), (884, 885), (890, 890), (900, 901), (903, 903),
      (1155, 1161), (1369, 1369), (1375, 1375), (1425, 1469), (1471, 1471), (1473, 1474),
      (1476, 1477), (1479, 1479), (1524, 1524), (1536, 1541), (1552, 1562), (1564, 1564),
      (1600, 1600), (1611, 1631), (1648, 1648), (1750, 1757), (1759, 1768), (1770, 1773),
      (1807, 1807), (1809, 1809), (1840, 1866), (1958, 1968), (2027, 2037), (2042, 2042),
      (2045, 2045), (2070, 2093), (2137, 2139), (2184, 2184), (2192, 2193), (2200, 2207),
      (2249, 2306), (2362, 2362), (2364, 2364), (2369, 2376), (2381, 2381), (2385, 2391),
      (2402, 2403), (2417, 2417), (2433, 2433), (2492, 2492), (2497, 2500), (2509, 2509),
      (2530, 2531), (2558, 2558), (2561, 2562), (2620, 2620), (2625, 2626), (2631, 2632),
      (2635, 2637), (2641, 2641), (2672, 2673), (2677, 2677), (2689, 2690), (2748, 2748),
      (2753, 2757), (2759, 2760), (2765, 2765), (2786, 2787), (2810, 2815), (2817, 2817),
      (2876, 2876), (2879, 2879), (2881, 2884), (2893, 2893), (2901, 2902), (2914, 2915),
      (2946, 2946), (3008, 3008), (3021, 3021), (3072, 3072), (3076, 3076), (3132, 3132),
      (3134, 3136), (3142, 3144), (3146, 3149), (3157, 3158), (3170, 3171), (3201, 3201),
      (3260, 3260), (3263, 3263), (3270, 3270), (3276, 3277), (3298, 3299), (3328, 3329),
      (3387, 3388), (3393, 3396), (3405, 3405), (3426, 3427), (3457, 3457), (3530, 3530),
      (3538, 3540), (3542, 3542), (3633, 3633), (3636, 3642), (3654, 3662), (3761, 3761),
      (3764, 3772), (3782, 3782), (3784, 3789), (3864, 3865), (3893, 3893), (3895, 3895),
      (3897, 3897), (3953, 3966), (3968, 3972), (3974, 3975), (3981, 3991), (3993, 4028),
      (4038, 4038), (4141, 4144), (4146, 4151), (4153, 4154), (4157, 4158), (4184, 4185),
      (4190, 4192), (4209, 4212), (4226, 4226), (4229, 4230), (4237, 4237), (4253, 4253),
      (4348, 4348), (4957, 4959), (5906, 5908), (5938, 5939), (5970, 5971), (6002, 6003),
      (6068, 6069), (6071, 6077), (6086, 6086), (6089, 6099), (6103, 6103), (6109, 6109),
      (6155, 6159), (6211, 6211), (6277, 6278), (6313, 6313), (6432, 6434), (6439, 6440),
      (6450, 6450), (6457, 6459), (6679, 6680), (6683, 6683), (6742, 6742), (6744, 6750),
      (6752, 6752), (6754, 6754), (6757, 6764), (6771, 6780), (6783, 6783), (6823, 6823),
      (6832, 6862), (6912, 6915), (6964, 6964), (6966, 6970), (6972, 6972), (6978, 6978),
      (7019, 7027), (7040, 7041), (7074, 7077), (7080, 7081), (7083, 7085), (7142, 7142),
      (7144, 7145), (7149, 7149), (7151, 7153), (7212, 7219), (7222, 7223), (7288, 7293),
      (7376, 7378), (7380, 7392), (7394, 7400), (7405, 7405), (7412, 7412), (7416, 7417),
      (7468, 7530), (7544, 7544), (7579, 7679), (8125, 8125), (8127, 8129), (8141, 8143),
      (8157, 8159), (8173, 8175), (8189, 8190), (8203, 8207), (8216, 8217), (8228, 8228),
      (8231, 8231), (8234, 8238), (8288, 8292), (8294, 8303), (8305, 8305), (8319, 8319),
      (8336, 8348), (8400, 8432), (11388, 11389), (11503, 11505), (11631, 11631),
      (11647, 11647), (11744, 11775), (11823, 11823), (12293, 12293), (12330, 12333),
      (12337, 12341), (12347, 12347), (12441, 12446), (12540, 12542), (40981, 40981),
      (42232, 42237), (42508, 42508), (42607, 42610), (42612, 42621), (42623, 42623),
      (42652, 42655), (42736, 42737), (42752, 42785), (42864, 42864), (42888, 42890),
      (42994, 42996), (43000, 43001), (43010, 43010), (43014, 43014), (43019, 43019),
      (43045, 43046), (43052, 43052), (43204, 43205), (43232, 43249), (43263, 43263),
      (43302, 43309), (43335, 43345), (43392, 43394), (43443, 43443), (43446, 43449),
      (43452, 43453), (43471, 43471), (43493, 43494), (43561, 43566), (43569, 43570),
      (43573, 43574), (43587, 43587), (43596, 43596), (43632, 43632), (43644, 43644),
      (43696, 43696), (43698, 43700), (43703, 43704), (43710, 43711), (43713, 43713),
      (43741, 43741), (43756, 43757), (43763, 43764), (43766, 43766), (43867, 43871),
      (43881, 43883), (44005, 44005), (44008, 44008), (44013, 44013), (64286, 64286),
      (64434, 64450), (65024, 65039), (65043, 65043), (65056, 65071), (65106, 65106),
      (65109, 65109), (65279, 65279), (65287, 65287), (65294, 65294), (65306, 65306),
      (65342, 65342), (65344, 65344), (65392, 65392), (65438, 65439), (65507, 65507),
      (65529, 65531), (66045, 66045), (66272, 66272), (66422, 66426), (67456, 67461),
      (67463, 67504), (67506, 67514), (68097, 68099), (68101, 68102), (68108, 68111),
      (68152, 68154), (68159, 68159), (68325, 68326), (68900, 68903), (69291, 69292),
      (69446, 69456), (69506, 69509), (69633, 69633), (69688, 69702), (69744, 69744),
      (69747, 69748), (69759, 69761), (69811, 69814), (69817, 69818), (69821, 69821),
      (69826, 69826), (69837, 69837), (69888, 69890), (69927, 69931), (69933, 69940),
      (70003, 70003), (70016, 70017), (70070, 70078), (70089, 70092), (70095, 70095),
      (70191, 70193), (70196, 70196), (70198, 70199), (70206, 70206), (70367, 70367),
      (70371, 70378), (70400, 70401), (70459, 70460), (70464, 70464), (70502, 70508),
      (70512, 70516), (70712, 70719), (70722, 70724), (70726, 70726), (70750, 70750),
      (70835, 70840), (70842, 70842), (70847, 70848), (70850, 70851), (71090, 71093),
      (71100, 71101), (71103, 71104), (71132, 71133), (71219, 71226), (71229, 71229),
      (71231, 71232), (71339, 71339), (71341, 71341), (71344, 71349), (71351, 71351),
      (71453, 71455), (71458, 71461), (71463, 71467), (71727, 71735), (71737, 71738),
      (71995, 71996), (71998, 71998), (72003, 72003), (72148, 72151), (72154, 72155),
      (72160, 72160), (72193, 72202), (72243, 72248), (72251, 72254), (72263, 72263),
      (72273, 72278), (72281, 72283), (72330, 72342), (72344, 72345), (72752, 72758),
      (72760, 72765), (72767, 72767), (72850, 72871), (72874, 72880), (72882, 72883),
      (72885, 72886), (73009, 73014), (73018, 73018), (73020, 73021), (73023, 73029),
      (73031, 73031), (73104, 73105), (73109, 73109), (73111, 73111), (73459, 73460),
      (78896, 78904), (92912, 92916), (92976, 92982), (92992, 92995), (94031, 94031),
      (94095, 94111), (94176, 94177), (94179, 94180), (110576, 110579), (110581, 110587),
      (110589, 110590), (113821, 113822), (113824, 113827), (118528, 118573),
      (118576, 118598), (119143, 119145), (119155, 119170), (119173, 119179),
      (119210, 119213), (119362, 119364), (121344, 121398), (121403, 121452),
      (121461, 121461), (121476, 121476), (121499, 121503), (121505, 121519),
      (122880, 122886), (122888, 122904), (122907, 122913), (122915, 122916),
      (122918, 122922), (123184, 123197), (123566, 123566), (123628, 123631),
      (125136, 125142), (125252, 125259), (127995, 127999), (917505, 917505),
      (917536, 917631), (917760, 917999)]"

definition cased_ranges :: "(codepoint \<times> codepoint) list" where
  "cased_ranges =
     [(65, 90), (97, 122), (170, 170), (181, 181), (186, 186), (192, 214), (216, 246),
      (248, 442), (444, 447), (452, 659), (661, 687), (880, 883), (886, 887), (891, 893),
      (895, 895), (902, 902), (904, 906), (908, 908), (910, 929), (931, 1013),
      (1015, 1153), (1162, 1327), (1329, 1366), (1376, 1416), (4256, 4293), (4295, 4295),
      (4301, 4301), (4304, 4346), (4349, 4351), (5024, 5109), (5112, 5117), (7296, 7304),
      (7312, 7354), (7357, 7359), (7424, 7467), (7531, 7543), (7545, 7578), (7680, 7957),
      (7960, 7965), (7968, 8005), (8008, 8013), (8016, 8023), (8025, 8025), (8027, 8027),
      (8029, 8029), (8031, 8061), (8064, 8116), (8118, 8124), (8126, 8126), (8130, 8132),
      (8134, 8140), (8144, 8147), (8150, 8155), (8160, 8172), (8178, 8180), (8182, 8188),
      (8450, 8450), (8455, 8455), (8458, 8467), (8469, 8469), (8473, 8477), (8484, 8484),
      (8486, 8486), (8488, 8488), (8490, 8493), (8495, 8500), (8505, 8505), (8508, 8511),
      (8517, 8521), (8526, 8526), (8544, 8575), (8579, 8580), (9398, 9449), (11264, 11387),
      (11390, 11492), (11499, 11502), (11506, 11507), (11520, 11557), (11559, 11559),
      (11565, 11565), (42560, 42605), (42624, 42651), (42786, 42863), (42865, 42887),
      (42891, 42894), (42896, 42954), (42960, 42961), (42963, 42963), (42965, 42969),
      (42997, 42998), (43002, 43002), (43824, 43866), (43872, 43880), (43888, 43967),
      (64256, 64262), (64275, 64279), (65313, 65338), (65345, 65370), (66560, 66639),
      (66736, 66771), (66776, 66811), (66928, 66938), (66940, 66954), (66956, 66962),
      (66964, 66965), (66967, 66977), (66979, 66993), (66995, 67001), (67003, 67004),
      (68736, 68786), (68800, 68850), (71840, 71903), (93760, 93823), (119808, 119892),
      (119894, 119964), (119966, 119967), (119970, 119970), (119973, 119974),
      (119977, 119980), (119982, 119993), (119995, 119995), (119997, 120003),
      (120005, 120069), (120071, 120074), (120077, 120084), (120086, 120092),
      (120094, 120121), (120123, 120126), (120128, 120132), (120134, 120134),
      (120138, 120144), (120146, 120485), (120488, 120512), (120514, 120538),
      (120540, 120570), (120572, 120596), (120598, 120628), (120630, 120654),
      (120656, 120686), (120688, 120712), (120714, 120744), (120746, 120770),
      (120772, 120779), (122624, 122633), (122635, 122654), (125184, 125251),
      (127280, 127305), (127312, 127337), (127344, 127369)]"

definition in_range :: "codepoint \<times> codepoint \<times> nat \<times> codepoint \<Rightarrow> codepoint \<Rightarrow> bool" where
  "in_range r c = (case r of (lo, hi, step, target) \<Rightarrow> lo \<le> c \<and> c \<le> hi \<and> (c - lo) mod step = 0)"

definition lower_cp :: "codepoint \<Rightarrow> codepoint" where
  "lower_cp c =
     (case find (\<lambda>r. in_range r c) lower_table of
        None \<Rightarrow> c
      | Some (lo, hi, step, target) \<Rightarrow> target + (c - lo))"

definition lower_full :: "codepoint \<Rightarrow> pystr" where
  "lower_full c = (if c = 304 then [105, 775] else [lower_cp c])"

definition case_ignorable :: "codepoint \<Rightarrow> bool" where
  "case_ignorable c = list_ex (\<lambda>(lo, hi). lo \<le> c \<and> c \<le> hi) ignorable_ranges"

definition cased :: "codepoint \<Rightarrow> bool" where
  "cased c = list_ex (\<lambda>(lo, hi). lo \<le> c \<and> c \<le> hi) cased_ranges"

text \<open>
  \<open>final_sigma before after\<close>: \<open>before\<close> holds the code points in front of the sigma,
  nearest first, \<open>after\<close> those behind it.
\<close>

definition final_sigma :: "pystr \<Rightarrow> pystr \<Rightarrow> bool" where
  "final_sigma before after =
     ((case dropWhile case_ignorable before of [] \<Rightarrow> False | c # _ \<Rightarrow> cased c)
      \<and> (case dropWhile case_ignorable after of [] \<Rightarrow> True | c # _ \<Rightarrow> \<not> cased c))"

fun lower_from :: "pystr \<Rightarrow> pystr \<Rightarrow> pystr" where
  "lower_from before [] = []"
| "lower_from before (c # cs) =
     (if c = 931 then [if final_sigma before cs then 962 else 963] else lower_full c)
     @ lower_from (c # before) cs"

definition py_lower :: "pystr \<Rightarrow> pystr" where
  "py_lower s = lower_from [] s"

text \<open>\<open>re.sub(r'\s+', ' ', text)\<close>: every maximal run of whitespace becomes one space.\<close>

function re_sub_ws :: "pystr \<Rightarrow> pystr" where
  "re_sub_ws [] = []"
| "re_sub_ws (c # cs) =
     (if py_isspace c then 32 # re_sub_ws (dropWhile py_isspace cs)
      else c # re_sub_ws cs)"
  by pat_completeness auto
termination
  by (relation "measure length") (auto simp: less_Suc_eq_le length_dropWhile_le)

text \<open>\<open>str.strip()\<close> and \<open>str.strip(chars)\<close>: drop from both ends.\<close>

definition strip_with :: "(codepoint \<Rightarrow> bool) \<Rightarrow> pystr \<Rightarrow> pystr" where
  "strip_with P s = rev (dropWhile P (rev (dropWhile P s)))"

definition py_strip :: "pystr \<Rightarrow> pystr" where
  "py_strip s = strip_with py_isspace s"

definition strip_chars :: "pystr \<Rightarrow> pystr \<Rightarrow> pystr" where
  "strip_chars chars s = strip_with (\<lambda>c. c \<in> set chars) s"

text \<open>\<open>str.split()\<close> with no argument: the maximal runs of non-whitespace, in order.\<close>

function py_split :: "pystr \<Rightarrow> pystr list" where
  "py_split s =
     (if dropWhile py_isspace s = [] then []
      else takeWhile (\<lambda>d. \<not> py_isspace d) (dropWhile py_isspace s)
           # py_split (dropWhile (\<lambda>d. \<not> py_isspace d) (dropWhile py_isspace s)))"
  by pat_completeness auto
termination
proof (relation "measure length", goal_cases)
  case 1
  show ?case by simp
next
  case (2 s)
  then obtain c cs where r: "dropWhile py_isspace s = c # cs"
    by (cases "dropWhile py_isspace s") auto
  have "\<not> py_isspace c"
    using hd_dropWhile [of py_isspace s] r by simp
  then have "length (dropWhile (\<lambda>d. \<not> py_isspace d) (c # cs)) \<le> length cs"
    by (simp add: length_dropWhile_le)
  moreover have "length (c # cs) \<le> length s"
    using length_dropWhile_le [of py_isspace s] r by simp
  ultimately show ?case using r by simp
qed

declare py_split.simps [simp del]

text \<open>\<open>needle in haystack\<close> on strings: the needle occurs as a contiguous piece.\<close>

fun py_in :: "pystr \<Rightarrow> pystr \<Rightarrow> bool" where
  "py_in needle [] = (needle = [])"
| "py_in needle (c # cs) = (prefix needle (c # cs) \<or> py_in needle cs)"

section \<open>core.py\<close>

definition normalize_text :: "pystr \<Rightarrow> pystr" where
  "normalize_text text = py_strip (re_sub_ws (py_lower text))"

definition tokenize :: "pystr \<Rightarrow> pystr list" where
  "tokenize text = filter (\<lambda>t. t \<noteq> []) (py_split (normalize_text text))"

definition label_from_score :: "real \<Rightarrow> real \<Rightarrow> real \<Rightarrow> string" where
  "label_from_score score pos_threshold neg_threshold =
     (if score \<ge> pos_threshold then ''positive''
      else if score \<le> neg_threshold then ''negative''
      else ''neutral'')"

text \<open>The call with both thresholds left at their defaults.\<close>

definition label_from_score_default :: "real \<Rightarrow> string" where
  "label_from_score_default score = label_from_score score 0.10 (- 0.10)"

definition clamp_unit :: "real \<Rightarrow> real" where
  "clamp_unit x = max (- 1.0) (min 1.0 x)"

section \<open>fallback.py\<close>

text \<open>The lexicons are Python set literals; they are written here as the source lists them.\<close>

definition POS_WORDS :: "pystr list" where
  "POS_WORDS = map cps
     [''love'', ''great'', ''amazing'', ''excellent'', ''fantastic'',
      ''wonderful'', ''awesome'', ''happy'', ''best'', ''enjoyed'',
      ''recommend'', ''perfect'', ''brilliant'', ''outstanding'',
      ''good'', ''nice'', ''fine'', ''super'', ''beautiful'']"

definition NEG_WORDS :: "pystr list" where
  "NEG_WORDS = map cps
     [''hate'', ''terrible'', ''awful'', ''horrible'', ''worst'',
      ''bad'', ''disappointed'', ''garbage'', ''waste'', ''broken'',
      ''frustrated'', ''upset'', ''never'', ''poor'', ''useless'',
      ''worst'', ''disgusting'', ''pathetic'']"

definition NEGATORS :: "pystr list" where
  "NEGATORS = map cps
     [''not'', ''no'', ''never'', ''don't'', ''doesn't'', ''didn't'',
      ''won't'', ''can't'', ''cannot'', ''neither'', ''nor'']"

definition BOOSTERS :: "pystr list" where
  "BOOSTERS = map cps
     [''very'', ''extremely'', ''absolutely'', ''really'', ''so'',
      ''highly'', ''completely'', ''totally'', ''utterly'']"

definition DAMPENERS :: "pystr list" where
  "DAMPENERS = map cps
     [''somewhat'', ''slightly'', ''barely'', ''hardly'', ''maybe'',
      ''perhaps'', ''kind of'', ''sort of'']"

text \<open>
  The emoji glyphs, as code points: U+1F60A, U+1F600, U+1F603, U+2764 U+FE0F, U+1F44D,
  U+1F389, U+2728; and U+1F621, U+1F622, U+1F61E, U+1F44E, U+1F494, U+1F620.
\<close>

definition EMOJI_POS :: "pystr list" where
  "EMOJI_POS = [[128522], [128512], [128515], [10084, 65039], [128077], [127881], [10024]]"

definition EMOJI_NEG :: "pystr list" where
  "EMOJI_NEG = [[128545], [128546], [128542], [128078], [128148], [128544]]"

text \<open>The characters of \<open>token.strip(".,!?;:\"'")\<close>.\<close>

definition PUNCT :: pystr where
  \<open>PUNCT = cps (''.,!?;:"'' @ [CHR 0x27])\<close>

text \<open>The local variables of the scoring loop.\<close>

record pass_state =
  score :: real
  negation_active :: bool
  booster_active :: bool
  dampener_active :: bool

definition init_state :: pass_state where
  "init_state =
     \<lparr>score = 0.0, negation_active = False, booster_active = False,
      dampener_active = False\<rparr>"

text \<open>The three \<open>if\<close> blocks under "Apply modifiers", each on \<open>(word_score, flags)\<close>.\<close>

definition apply_negation :: "real \<times> pass_state \<Rightarrow> real \<times> pass_state" where
  "apply_negation p =
     (case p of (word_score, st) \<Rightarrow>
        if negation_active st then (word_score * (- 1.0), st\<lparr>negation_active := False\<rparr>)
        else (word_score, st))"

definition apply_booster :: "real \<times> pass_state \<Rightarrow> real \<times> pass_state" where
  "apply_booster p =
     (case p of (word_score, st) \<Rightarrow>
        if booster_active st then (word_score * 1.8, st\<lparr>booster_active := False\<rparr>)
        else (word_score, st))"

definition apply_dampener :: "real \<times> pass_state \<Rightarrow> real \<times> pass_state" where
  "apply_dampener p =
     (case p of (word_score, st) \<Rightarrow>
        if dampener_active st then (word_score * 0.5, st\<lparr>dampener_active := False\<rparr>)
        else (word_score, st))"

definition base_score :: "pystr \<Rightarrow> real" where
  "base_score word =
     (if word \<in> set POS_WORDS then 0.7
      else if word \<in> set NEG_WORDS then - 0.7
      else 0.0)"

text \<open>One iteration of the loop over the tokens; \<open>continue\<close> is an early result.\<close>

definition score_token :: "pass_state \<Rightarrow> pystr \<Rightarrow> pass_state" where
  "score_token st token =
     (let word = strip_chars PUNCT token in
      if word \<in> set NEGATORS then st\<lparr>negation_active := True\<rparr>
      else if word \<in> set BOOSTERS then st\<lparr>booster_active := True\<rparr>
      else if word \<in> set DAMPENERS then st\<lparr>dampener_active := True\<rparr>
      else
        (case apply_dampener (apply_booster (apply_negation (base_score word, st))) of
           (word_score, st') \<Rightarrow> st'\<lparr>score := score st' + word_score\<rparr>))"

definition token_pass :: "pystr list \<Rightarrow> pass_state" where
  "token_pass tokens = foldl score_token init_state tokens"

text \<open>Punctuation emphasis: \<open>normalized.count("!")\<close>, added when positive.\<close>

definition punctuation_emphasis :: "pystr \<Rightarrow> real \<Rightarrow> real" where
  "punctuation_emphasis normalized s =
     (let exclamation_count = count_list normalized 33 in
      if exclamation_count > 0 then s + 0.1 * real exclamation_count else s)"

text \<open>The two passes over the emoji sets, each testing \<open>emoji in text\<close>.\<close>

definition emoji_hints :: "pystr \<Rightarrow> real \<Rightarrow> real" where
  "emoji_hints text s =
     foldl (\<lambda>acc emoji. if py_in emoji text then acc - 0.3 else acc)
       (foldl (\<lambda>acc emoji. if py_in emoji text then acc + 0.3 else acc) s EMOJI_POS)
       EMOJI_NEG"

text \<open>Normalisation by length; \<open>len(tokens) ** 0.5\<close> is the square root.\<close>

definition length_normalize :: "pystr list \<Rightarrow> real \<Rightarrow> real" where
  "length_normalize tokens s =
     (if length tokens > 0 then
        (if length tokens \<le> 3 then s / max 1.0 (real (length tokens) * 0.6)
         else s / sqrt (real (length tokens)))
      else s)"

definition analyze_fallback_score :: "pystr \<Rightarrow> real" where
  "analyze_fallback_score text =
     (let normalized = normalize_text text;
          tokens = tokenize normalized;
          s = score (token_pass tokens);
          s = punctuation_emphasis normalized s;
          s = emoji_hints text s;
          s = length_normalize tokens s
      in clamp_unit s)"

definition analyze_fallback :: "pystr \<Rightarrow> string" where
  "analyze_fallback text = label_from_score_default (analyze_fallback_score text)"

section \<open>strategy.py\<close>

text \<open>
  The collaborators of the selector are parameters: what \<open>Path(model_path).exists()\<close>
  gives, what loading the file gives, and what the loaded model answers. A raised
  \<open>Exception\<close> is a value \<open>Inl e\<close>. \<open>Path.exists\<close> answers \<open>False\<close> for a missing file
  and raises the \<open>OSError\<close> of any other failed probe (a name that is too long, a
  directory that may not be searched).
\<close>

datatype py_exception = Exception string

record ('p, 'm) environment =
  path_exists :: "'p \<Rightarrow> py_exception + bool"
  load_model :: "'p \<Rightarrow> py_exception + 'm"
  analyze_ml :: "'m \<Rightarrow> pystr \<Rightarrow> py_exception + string"
  analyze_ml_score :: "'m \<Rightarrow> pystr \<Rightarrow> py_exception + real"

text \<open>The two module-level variables.\<close>

record 'm module_state =
  MODEL_CACHE :: "'m option"
  MODEL_LOADED :: bool

definition initial_module :: "'m module_state" where
  "initial_module = \<lparr>MODEL_CACHE = None, MODEL_LOADED = False\<rparr>"

text \<open>
  \<open>_load_model_once\<close>: the call of \<open>exists\<close> stands before the \<open>try\<close> block, so what
  it raises leaves the function, after \<open>_MODEL_LOADED\<close> has been set; what
  \<open>load_model\<close> raises is caught by \<open>except Exception\<close>.
\<close>

definition load_model_once ::
  "('p, 'm) environment \<Rightarrow> 'p \<Rightarrow> 'm module_state
     \<Rightarrow> (py_exception + 'm option) \<times> 'm module_state" where
  "load_model_once env model_path st =
     (if MODEL_LOADED st then (Inr (MODEL_CACHE st), st)
      else
        (let st = st\<lparr>MODEL_LOADED := True\<rparr> in
         case path_exists env model_path of
           Inl e \<Rightarrow> (Inl e, st)
         | Inr found \<Rightarrow>
             if \<not> found then (Inr None, st)
             else
               (case load_model env model_path of
                  Inr m \<Rightarrow> (Inr (Some m), st\<lparr>MODEL_CACHE := Some m\<rparr>)
                | Inl e \<Rightarrow> (Inr None, st))))"

definition analyze_strategy ::
  "('p, 'm) environment \<Rightarrow> pystr \<Rightarrow> 'p \<Rightarrow> 'm module_state
     \<Rightarrow> (py_exception + string) \<times> 'm module_state" where
  "analyze_strategy env text model_path st =
     (case load_model_once env model_path st of
        (Inl e, st') \<Rightarrow> (Inl e, st')
      | (Inr (Some model), st') \<Rightarrow> (analyze_ml env model text, st')
      | (Inr None, st') \<Rightarrow> (Inr (analyze_fallback text), st'))"

definition analyze_strategy_score ::
  "('p, 'm) environment \<Rightarrow> pystr \<Rightarrow> 'p \<Rightarrow> 'm module_state
     \<Rightarrow> (py_exception + real) \<times> 'm module_state" where
  "analyze_strategy_score env text model_path st =
     (case load_model_once env model_path st of
        (Inl e, st') \<Rightarrow> (Inl e, st')
      | (Inr (Some model), st') \<Rightarrow> (analyze_ml_score env model text, st')
      | (Inr None, st') \<Rightarrow> (Inr (analyze_fallback_score text), st'))"

section \<open>Auxiliary notions for the proofs\<close>

text \<open>
  A string in which every whitespace character is a single space \<open>U+0020\<close> that is not
  followed by another whitespace character: the shape of what \<open>re_sub_ws\<close> returns.
\<close>

fun ws_single :: "pystr \<Rightarrow> bool" where
  "ws_single [] = True"
| "ws_single [c] = (if py_isspace c then c = 32 else True)"
| "ws_single (c # d # cs) =
     ((if py_isspace c then c = 32 \<and> \<not> py_isspace d else True) \<and> ws_single (d # cs))"

text \<open>
  A text whose tokens all have zero lexical contribution: every token is a modifier,
  which adds nothing, or a word whose base contribution is zero.
\<close>

definition otherwise_neutral :: "pystr \<Rightarrow> bool" where
  "otherwise_neutral text =
     list_all
       (\<lambda>token. strip_chars PUNCT token \<in> set NEGATORS \<union> set BOOSTERS \<union> set DAMPENERS
                \<or> base_score (strip_chars PUNCT token) = 0)
       (tokenize text)"

text \<open>
  A code point that \<open>py_lower\<close> leaves as it is, and the test that the images of one
  entry of the lowercase table miss the code points another entry maps.
\<close>

definition stable :: "codepoint \<Rightarrow> bool" where
  "stable c = (c \<noteq> 304 \<and> find (\<lambda>r. in_range r c) lower_table = None)"

definition pair_ok ::
  "codepoint \<times> codepoint \<times> nat \<times> codepoint \<Rightarrow> codepoint \<times> codepoint \<times> nat \<times> codepoint \<Rightarrow> bool" where
  "pair_ok r r' =
     (case r of (lo, hi, step, target) \<Rightarrow>
      case r' of (lo', hi', step', target') \<Rightarrow>
        if hi' < target then True
        else if target + (hi - lo) < lo' then True
        else if lo = hi then (target - lo') mod step' = 1
        else step = 2 \<and> step' = 2 \<and> (target + lo') mod 2 = 1)"

text \<open>A collaborator whose model file exists and cannot be loaded.\<close>

definition broken_artifact :: "(string, nat) environment" where
  "broken_artifact =
     \<lparr>path_exists = (\<lambda>p. Inr True),
      load_model = (\<lambda>p. Inl (Exception ''unpickling failed'')),
      analyze_ml = (\<lambda>m t. Inr ''neutral''),
      analyze_ml_score = (\<lambda>m t. Inr 0)\<rparr>"

text \<open>
  A file system without a model file, on which a path of more than 255 characters
  cannot be probed: \<open>exists\<close> raises \<open>OSError\<close> (\<open>ENAMETOOLONG\<close>) for it.
\<close>

definition name_limit_filesystem :: "(string, nat) environment" where
  "name_limit_filesystem =
     \<lparr>path_exists =
        (\<lambda>p. if length p > 255 then Inl (Exception ''OSError: File name too long'')
             else Inr False),
      load_model = (\<lambda>p. Inl (Exception ''FileNotFoundError'')),
      analyze_ml = (\<lambda>m t. Inr ''neutral''),
      analyze_ml_score = (\<lambda>m t. Inr 0)\<rparr>"

section \<open>Whitespace, case and stripping\<close>

lemma isspace_32: "py_isspace 32"
  by (simp add: py_isspace_def py_whitespace_def)

lemma re_sub_head:
  "re_sub_ws xs = y # ys \<Longrightarrow> py_isspace y \<Longrightarrow> xs \<noteq> [] \<and> py_isspace (hd xs)"
  by (cases xs) (auto split: if_splits)

lemma dropWhile_head: "dropWhile P xs = y # ys \<Longrightarrow> \<not> P y"
  using hd_dropWhile [of P xs] by auto

lemma ws_single_re_sub: "ws_single (re_sub_ws s)"
proof (induction s rule: re_sub_ws.induct)
  case 1
  show ?case by simp
next
  case (2 c cs)
  show ?case
  proof (cases "py_isspace c")
    case True
    let ?r = "re_sub_ws (dropWhile py_isspace cs)"
    from True 2 have ih: "ws_single ?r" by simp
    show ?thesis
    proof (cases ?r)
      case Nil
      with True show ?thesis by (simp add: isspace_32)
    next
      case (Cons y ys)
      have "\<not> py_isspace y"
      proof
        assume "py_isspace y"
        with Cons have "dropWhile py_isspace cs \<noteq> [] \<and> py_isspace (hd (dropWhile py_isspace cs))"
          by (rule re_sub_head)
        then show False using hd_dropWhile [of py_isspace cs] by simp
      qed
      with True Cons ih show ?thesis by (simp add: isspace_32)
    qed
  next
    case False
    with 2 have ih: "ws_single (re_sub_ws cs)" by simp
    with False show ?thesis by (cases "re_sub_ws cs") simp_all
  qed
qed

lemma ws_single_fix: "ws_single s \<Longrightarrow> re_sub_ws s = s"
  by (induction s rule: ws_single.induct) (auto split: if_splits)

lemma ws_single_tl: "ws_single (x # xs) \<Longrightarrow> ws_single xs"
  by (cases xs) simp_all

lemma ws_single_suffix: "ws_single (xs @ ys) \<Longrightarrow> ws_single ys"
  by (induction xs) (auto dest: ws_single_tl)

lemma ws_single_prefix: "ws_single (xs @ ys) \<Longrightarrow> ws_single xs"
proof (induction xs rule: ws_single.induct)
  case 1
  show ?case by simp
next
  case (2 c)
  then show ?case by (cases ys) (auto split: if_splits)
next
  case (3 c d cs)
  then show ?case by simp
qed

lemma ws_single_dropWhile: "ws_single s \<Longrightarrow> ws_single (dropWhile P s)"
  using ws_single_suffix [of "takeWhile P s" "dropWhile P s"] by simp

lemma rev_dropWhile_rev_prefix:
  "rev (dropWhile P (rev s)) @ rev (takeWhile P (rev s)) = s"
proof -
  have "rev (takeWhile P (rev s) @ dropWhile P (rev s)) = s" by simp
  then show ?thesis by (simp only: rev_append)
qed

lemma ws_single_strip: "ws_single s \<Longrightarrow> ws_single (strip_with P s)"
proof -
  assume "ws_single s"
  then have a: "ws_single (dropWhile P s)" by (rule ws_single_dropWhile)
  have "ws_single (rev (dropWhile P (rev (dropWhile P s))) @ rev (takeWhile P (rev (dropWhile P s))))"
    using a by (simp only: rev_dropWhile_rev_prefix)
  then show ?thesis unfolding strip_with_def by (rule ws_single_prefix)
qed

lemma strip_with_head:
  "strip_with P s = y # ys \<Longrightarrow> \<not> P y"
proof -
  assume a: "strip_with P s = y # ys"
  let ?t = "dropWhile P s"
  have "rev (dropWhile P (rev ?t)) @ rev (takeWhile P (rev ?t)) = ?t"
    by (rule rev_dropWhile_rev_prefix)
  with a have "?t = y # (ys @ rev (takeWhile P (rev ?t)))"
    by (simp add: strip_with_def)
  then show ?thesis by (rule dropWhile_head)
qed

lemma strip_with_last:
  "strip_with P s = ys @ [y] \<Longrightarrow> \<not> P y"
proof -
  assume "strip_with P s = ys @ [y]"
  then have "dropWhile P (rev (dropWhile P s)) = y # rev ys"
    by (simp add: strip_with_def rev_swap)
  then show ?thesis by (rule dropWhile_head)
qed

lemma strip_with_idem: "strip_with P (strip_with P s) = strip_with P s"
proof (cases "strip_with P s" rule: rev_cases)
  case Nil
  have "strip_with P [] = []" by (simp add: strip_with_def)
  with Nil show ?thesis by simp
next
  case (snoc ys y)
  then have ny: "\<not> P y" by (rule strip_with_last)
  let ?u = "strip_with P s"
  have d1: "dropWhile P ?u = ?u"
  proof (cases ?u)
    case Nil
    then show ?thesis by simp
  next
    case (Cons z zs)
    then have "\<not> P z" by (rule strip_with_head)
    with Cons show ?thesis by simp
  qed
  have "dropWhile P (rev ?u) = rev ?u" using snoc ny by simp
  with d1 have "strip_with P ?u = rev (rev ?u)"
    by (simp only: strip_with_def)
  then show ?thesis by simp
qed

section \<open>Lower-casing\<close>

text \<open>
  No code point that the lowercase table produces is itself mapped by the table, so what
  \<open>py_lower\<close> returns is left unchanged by a second pass.
\<close>

lemma pair_ok_sound:
  assumes "pair_ok (lo, hi, step, target) r'" and "in_range (lo, hi, step, target) c"
  shows "\<not> in_range r' (target + (c - lo))"
proof -
  obtain lo' hi' step' target' where r': "r' = (lo', hi', step', target')"
    by (cases r') auto
  from assms(2) have c: "lo \<le> c" "c \<le> hi" "(c - lo) mod step = 0"
    by (simp_all add: in_range_def)
  let ?v = "target + (c - lo)"
  from c have v: "target \<le> ?v" "?v \<le> target + (hi - lo)" by simp_all
  consider (above) "hi' < target"
    | (below) "target + (hi - lo) < lo'"
    | (single) "lo' \<le> target" "lo = hi" "(target - lo') mod step' = 1"
    | (parity) "step = 2" "step' = 2" "(target + lo') mod 2 = 1"
    using assms(1) unfolding r' pair_ok_def
    by (auto split: if_splits)
  then show ?thesis
  proof cases
    case above
    with v show ?thesis by (simp add: r' in_range_def)
  next
    case below
    with v show ?thesis by (simp add: r' in_range_def)
  next
    case single
    with c have "?v = target" by simp
    with single show ?thesis by (simp add: r' in_range_def)
  next
    case parity
    from c parity have e: "even (c - lo)" by (simp add: even_iff_mod_2_eq_zero)
    from parity(3) have o: "odd (target + lo')" by (simp only: odd_iff_mod_2_eq_one)
    have "odd (?v - lo')" if "lo' \<le> ?v"
    proof -
      from e o have "odd (?v + lo')" by simp
      with that show ?thesis by (simp only: even_diff_nat not_less) simp
    qed
    then have n: "lo' \<le> ?v \<Longrightarrow> (?v - lo') mod 2 \<noteq> 0"
      by (simp add: even_iff_mod_2_eq_zero)
    show ?thesis
    proof
      assume "in_range r' ?v"
      then have "lo' \<le> ?v" and "(?v - lo') mod 2 = 0"
        using parity(2) by (simp_all add: r' in_range_def)
      with n show False by blast
    qed
  qed
qed

lemma table_pairs: "list_all (\<lambda>r. list_all (pair_ok r) lower_table) lower_table"
  by (simp add: lower_table_def pair_ok_def)

lemma table_values:
  "list_all (\<lambda>(lo, hi, step, target). 97 \<le> target \<and> (304 < target \<or> target + (hi - lo) < 304))
     lower_table"
  by (simp add: lower_table_def)

lemma lower_cp_cases:
  obtains (same) "find (\<lambda>r. in_range r c) lower_table = None" and "lower_cp c = c"
  | (mapped) lo hi step target where "(lo, hi, step, target) \<in> set lower_table"
      and "in_range (lo, hi, step, target) c" and "lower_cp c = target + (c - lo)"
proof (cases "find (\<lambda>r. in_range r c) lower_table")
  case None
  then show ?thesis using same by (simp add: lower_cp_def)
next
  case (Some r)
  obtain lo hi step target where r: "r = (lo, hi, step, target)" by (cases r) auto
  from Some have "r \<in> set lower_table" and "in_range r c"
    by (auto simp: find_Some_iff)
  with Some r show ?thesis using mapped by (simp add: lower_cp_def)
qed

lemma lower_cp_stable: "c \<noteq> 304 \<Longrightarrow> stable (lower_cp c)"
proof (cases c rule: lower_cp_cases)
  case same
  assume "c \<noteq> 304"
  with same show ?thesis by (simp add: stable_def)
next
  case (mapped lo hi step target)
  let ?r = "(lo, hi, step, target)"
  let ?v = "target + (c - lo)"
  from mapped(1) table_values
  have b: "304 < target \<or> target + (hi - lo) < 304"
    by (auto simp: list_all_iff)
  from mapped(2) have "c \<le> hi" by (simp add: in_range_def)
  with b have n: "?v \<noteq> 304" by auto
  have "\<not> in_range r' ?v" if "r' \<in> set lower_table" for r'
  proof -
    from mapped(1) that table_pairs have "pair_ok ?r r'"
      by (auto simp: list_all_iff)
    then show ?thesis using mapped(2) by (rule pair_ok_sound)
  qed
  then have "find (\<lambda>r. in_range r ?v) lower_table = None"
    by (simp add: find_None_iff)
  with n mapped(3) show ?thesis by (simp add: stable_def)
qed

lemma lower_cp_new: "lower_cp c = c \<or> 97 \<le> lower_cp c"
proof (cases c rule: lower_cp_cases)
  case same
  then show ?thesis by simp
next
  case (mapped lo hi step target)
  from mapped(1) table_values have "97 \<le> target" by (auto simp: list_all_iff)
  with mapped(3) show ?thesis by simp
qed

lemma stable_lower_cp: "stable c \<Longrightarrow> lower_cp c = c"
  by (simp add: stable_def lower_cp_def)

lemma stable_outputs: "stable 32" "stable 105" "stable 775" "stable 962" "stable 963"
  by (simp_all add: stable_def lower_table_def in_range_def)

lemma sigma_not_stable: "\<not> stable 931"
  by (simp add: stable_def lower_table_def in_range_def)

lemma lower_full_stable: "d \<in> set (lower_full c) \<Longrightarrow> stable d"
  by (auto simp: lower_full_def stable_outputs lower_cp_stable split: if_splits)

lemma lower_from_stable: "d \<in> set (lower_from before s) \<Longrightarrow> stable d"
proof (induction s arbitrary: before)
  case Nil
  then show ?case by simp
next
  case (Cons c cs)
  then show ?case
    by (auto simp: stable_outputs dest: lower_full_stable split: if_splits)
qed

lemma lower_from_id: "\<forall>c\<in>set s. stable c \<Longrightarrow> lower_from before s = s"
proof (induction s arbitrary: before)
  case Nil
  show ?case by simp
next
  case (Cons c cs)
  then have c: "stable c" and ih: "lower_from (c # before) cs = cs" by simp_all
  from c have "c \<noteq> 931" using sigma_not_stable by auto
  moreover from c have "lower_full c = [c]"
    by (simp add: lower_full_def stable_lower_cp stable_def)
  ultimately show ?case using ih by simp
qed

lemma lower_from_chars: "d \<in> set (lower_from before s) \<Longrightarrow> d \<in> set s \<or> 97 \<le> d"
proof (induction s arbitrary: before)
  case Nil
  then show ?case by simp
next
  case (Cons c cs)
  from Cons.prems have "d \<in> set (if c = 931 then [if final_sigma before cs then 962 else 963]
      else lower_full c) \<or> d \<in> set (lower_from (c # before) cs)"
    by simp
  then show ?case
  proof
    assume "d \<in> set (if c = 931 then [if final_sigma before cs then 962 else 963]
      else lower_full c)"
    then have "d = c \<or> 97 \<le> d"
      using lower_cp_new [of c] by (auto simp: lower_full_def split: if_splits)
    then show ?thesis by auto
  next
    assume "d \<in> set (lower_from (c # before) cs)"
    then have "d \<in> set cs \<or> 97 \<le> d" by (rule Cons.IH)
    then show ?thesis by auto
  qed
qed

lemma lower_cp_low: "c < 192 \<Longrightarrow> lower_cp c = (if 65 \<le> c \<and> c \<le> 90 then c + 32 else c)"
  by (simp add: lower_cp_def lower_table_def in_range_def)

lemma lower_cp_high: "125217 < c \<Longrightarrow> lower_cp c = c"
  by (simp add: lower_cp_def lower_table_def in_range_def)

lemma py_lower_stable: "\<forall>c\<in>set (py_lower s). stable c"
  by (auto simp: py_lower_def dest: lower_from_stable)

lemma py_lower_id: "\<forall>c\<in>set s. stable c \<Longrightarrow> py_lower s = s"
  by (simp add: py_lower_def lower_from_id)

text \<open>The Kelvin sign, an accented capital, the dotted capital I, and both sigmas.\<close>

lemmas lower_table_eval = lower_cp_def lower_table_def in_range_def final_sigma_def
  case_ignorable_def cased_def ignorable_ranges_def cased_ranges_def

lemma py_lower_examples:
  "py_lower [8490, 201, 304] = [107, 233, 105, 775]"
  "py_lower [913, 931, 32, 931, 913] = [945, 962, 32, 963, 945]"
  by (simp_all add: py_lower_def lower_full_def lower_table_eval)

section \<open>Idempotence of the normalizer\<close>

lemma set_strip_with: "set (strip_with P s) \<subseteq> set s"
proof -
  have "set (dropWhile P (rev (dropWhile P s))) \<subseteq> set (rev (dropWhile P s))"
    by (rule set_dropWhileD [THEN subsetI]) 
  also have "\<dots> \<subseteq> set s" by (auto dest: set_dropWhileD)
  finally show ?thesis by (simp add: strip_with_def)
qed

lemma set_re_sub: "set (re_sub_ws s) \<subseteq> insert 32 (set s)"
proof (induction s rule: re_sub_ws.induct)
  case 1
  show ?case by simp
next
  case (2 c cs)
  show ?case
  proof (cases "py_isspace c")
    case True
    with 2 have "set (re_sub_ws (dropWhile py_isspace cs)) \<subseteq> insert 32 (set (dropWhile py_isspace cs))"
      by simp
    also have "\<dots> \<subseteq> insert 32 (set cs)" by (auto dest: set_dropWhileD)
    finally show ?thesis using True by auto
  next
    case False
    with 2 show ?thesis by auto
  qed
qed

lemma normalize_idem: "normalize_text (normalize_text x) = normalize_text x"
proof -
  let ?y = "py_lower x"
  let ?z = "py_strip (re_sub_ws ?y)"
  have "set ?z \<subseteq> insert 32 (set ?y)"
    using set_strip_with [of py_isspace "re_sub_ws ?y"] set_re_sub [of ?y]
    by (auto simp: py_strip_def)
  then have "\<forall>c\<in>set ?z. stable c"
    using py_lower_stable [of x] stable_outputs(1) by auto
  then have l: "py_lower ?z = ?z" by (rule py_lower_id)
  have "ws_single ?z"
    unfolding py_strip_def by (rule ws_single_strip) (rule ws_single_re_sub)
  then have fixed: "re_sub_ws ?z = ?z" by (rule ws_single_fix)
  have "normalize_text (normalize_text x) = py_strip (re_sub_ws (py_lower ?z))"
    by (simp add: normalize_text_def)
  also have "\<dots> = py_strip ?z" by (simp only: l fixed)
  also have "\<dots> = ?z" by (simp add: py_strip_def strip_with_idem)
  finally show ?thesis by (simp add: normalize_text_def)
qed

section \<open>Tokens, emoji and punctuation terms\<close>

lemma tokenize_normalize: "tokenize (normalize_text text) = tokenize text"
  by (simp add: tokenize_def normalize_idem)

lemma py_split_no_space:
  "t \<in> set (py_split s) \<Longrightarrow> c \<in> set t \<Longrightarrow> \<not> py_isspace c"
proof (induction s rule: py_split.induct)
  case (1 s)
  show ?case
  proof (cases "dropWhile py_isspace s = []")
    case True
    with 1(2) show ?thesis by (simp add: py_split.simps [of s])
  next
    case False
    let ?r = "dropWhile py_isspace s"
    from False have "py_split s = takeWhile (\<lambda>d. \<not> py_isspace d) ?r
        # py_split (dropWhile (\<lambda>d. \<not> py_isspace d) ?r)"
      by (subst py_split.simps) (simp only: if_False)
    with 1(2) have "t = takeWhile (\<lambda>d. \<not> py_isspace d) ?r
        \<or> t \<in> set (py_split (dropWhile (\<lambda>d. \<not> py_isspace d) ?r))"
      by simp
    then show ?thesis
    proof
      assume "t = takeWhile (\<lambda>d. \<not> py_isspace d) ?r"
      with 1(3) show ?thesis by (auto dest: set_takeWhileD)
    next
      assume "t \<in> set (py_split (dropWhile (\<lambda>d. \<not> py_isspace d) ?r))"
      with False 1(1) 1(3) show ?thesis by simp
    qed
  qed
qed

lemma tokenize_no_space:
  "t \<in> set (tokenize text) \<Longrightarrow> c \<in> set t \<Longrightarrow> \<not> py_isspace c"
  by (auto simp: tokenize_def dest: py_split_no_space)

lemma strip_token_no_space:
  assumes "t \<in> set (tokenize text)"
  shows "32 \<notin> set (strip_chars PUNCT t)"
proof
  assume "32 \<in> set (strip_chars PUNCT t)"
  then have "32 \<in> set t" using set_strip_with [of "\<lambda>c. c \<in> set PUNCT" t]
    by (auto simp: strip_chars_def)
  with assms have "\<not> py_isspace 32" by (rule tokenize_no_space)
  then show False by (simp add: isspace_32)
qed

lemma py_in_sublist: "py_in needle hay \<longleftrightarrow> sublist needle hay"
  by (induction hay) (simp_all add: sublist_Cons_right)

lemma foldl_cond_add:
  "foldl (\<lambda>acc e. if P e then acc + d else acc) (s::real) xs
     = s + d * real (length (filter P xs))"
  by (induction xs arbitrary: s) (simp_all add: algebra_simps)

lemma card_filter_distinct:
  "distinct xs \<Longrightarrow> card {x \<in> set xs. P x} = length (filter P xs)"
proof -
  assume "distinct xs"
  then have "distinct (filter P xs)" by simp
  then have "card (set (filter P xs)) = length (filter P xs)" by (rule distinct_card)
  then show ?thesis by simp
qed

lemma distinct_emoji: "distinct EMOJI_POS" "distinct EMOJI_NEG"
  by (simp_all add: EMOJI_POS_def EMOJI_NEG_def)

lemma emoji_hints_closed:
  "emoji_hints text s = s + 0.3 * real (card {g \<in> set EMOJI_POS. py_in g text})
                          - 0.3 * real (card {g \<in> set EMOJI_NEG. py_in g text})"
proof -
  have neg: "(\<lambda>acc emoji. if py_in emoji text then acc - 0.3 else acc)
      = (\<lambda>(acc::real) emoji. if py_in emoji text then acc + (- 0.3) else acc)"
    by (intro ext) simp
  show ?thesis
    unfolding emoji_hints_def neg foldl_cond_add
    by (simp add: card_filter_distinct distinct_emoji)
qed

lemma punctuation_emphasis_closed:
  "punctuation_emphasis normalized s = s + 0.1 * real (count_list normalized 33)"
  by (simp add: punctuation_emphasis_def Let_def)

text \<open>The definitions unfolded to evaluate the string functions on a literal.\<close>

lemmas str_eval = cps_def py_isspace_def py_whitespace_def py_lower_def lower_full_def
  lower_cp_low lower_cp_high
  py_strip_def strip_with_def strip_chars_def normalize_text_def tokenize_def py_split.simps

lemmas lex_eval = POS_WORDS_def NEG_WORDS_def NEGATORS_def BOOSTERS_def DAMPENERS_def PUNCT_def

lemmas pass_eval = token_pass_def score_token_def base_score_def apply_negation_def
  apply_booster_def apply_dampener_def init_state_def Let_def

lemma not_very_good_tokens:
  "tokenize (cps ''not very good'') = [cps ''not'', cps ''very'', cps ''good'']"
  by (simp add: str_eval)

lemma not_very_good_pass:
  "score (token_pass [cps ''not'', cps ''very'', cps ''good'']) = - 1.26"
  by (simp add: pass_eval str_eval lex_eval)

lemma not_very_good_emoji: "emoji_hints (cps ''not very good'') s = s"
  by (simp add: emoji_hints_def EMOJI_POS_def EMOJI_NEG_def cps_def)

section \<open>The normalizer and the label mapper\<close>

text \<open>
  C8: \<open>normalize\<close> is total and idempotent, \<open>normalize(normalize(x)) == normalize(x)\<close>
  for every string \<open>x\<close>, and it ignores case: \<open>normalize("HELLO") == normalize("hello")\<close>.
\<close>

theorem normalize_idempotent:
  "normalize_text (normalize_text x) = normalize_text x
   \<and> normalize_text (cps ''HELLO'') = normalize_text (cps ''hello'')"
proof
  show "normalize_text (normalize_text x) = normalize_text x"
    by (rule normalize_idem)
  show "normalize_text (cps ''HELLO'') = normalize_text (cps ''hello'')"
    by (simp add: str_eval)
qed

text \<open>
  C7: \<open>label_from_score\<close> answers positive exactly when the score is at least the positive
  threshold, otherwise negative exactly when the score is at most the negative threshold,
  otherwise neutral. Both bounds are inclusive: with the default thresholds, 0.10 is
  positive, 0.099 neutral, -0.10 negative and -0.099 neutral.
\<close>

theorem label_from_score_thresholds:
  "(label_from_score s p n = ''positive'' \<longleftrightarrow> s \<ge> p)
   \<and> (label_from_score s p n = ''negative'' \<longleftrightarrow> s < p \<and> s \<le> n)
   \<and> (label_from_score s p n = ''neutral'' \<longleftrightarrow> s < p \<and> s > n)
   \<and> label_from_score_default 0.10 = ''positive''
   \<and> label_from_score_default 0.099 = ''neutral''
   \<and> label_from_score_default (- 0.10) = ''negative''
   \<and> label_from_score_default (- 0.099) = ''neutral''"
  by (auto simp: label_from_score_def label_from_score_default_def)

section \<open>The lexicon score engine\<close>

text \<open>
  C1: for every input string, \<open>analyze_fallback_score\<close> returns a value in the closed
  interval from -1 to 1.
\<close>

theorem analyze_fallback_score_range:
  "- 1 \<le> analyze_fallback_score text \<and> analyze_fallback_score text \<le> 1"
  by (simp add: analyze_fallback_score_def clamp_unit_def Let_def)

text \<open>
  C5, as stated: the five word sets are pairwise disjoint. The word \<open>never\<close> is listed
  both as a negative word and as a negator.
\<close>

theorem never_in_two_lexicons:
  "cps ''never'' \<in> set NEG_WORDS \<inter> set NEGATORS"
  by (simp add: NEG_WORDS_def NEGATORS_def)

text \<open>
  C5, amended: the five word sets are pairwise disjoint except for the word \<open>never\<close>,
  which is the one common element of the negative words and the negators; every other
  pair of sets has no common element.
\<close>

theorem lexicons_disjoint_except_never:
  "set POS_WORDS \<inter> set NEG_WORDS = {}
   \<and> set POS_WORDS \<inter> set NEGATORS = {}
   \<and> set POS_WORDS \<inter> set BOOSTERS = {}
   \<and> set POS_WORDS \<inter> set DAMPENERS = {}
   \<and> set NEG_WORDS \<inter> set NEGATORS = {cps ''never''}
   \<and> set NEG_WORDS \<inter> set BOOSTERS = {}
   \<and> set NEG_WORDS \<inter> set DAMPENERS = {}
   \<and> set NEGATORS \<inter> set BOOSTERS = {}
   \<and> set NEGATORS \<inter> set DAMPENERS = {}
   \<and> set BOOSTERS \<inter> set DAMPENERS = {}"
  by (simp add: POS_WORDS_def NEG_WORDS_def NEGATORS_def BOOSTERS_def DAMPENERS_def cps_def)

text \<open>
  C2: in the single left-to-right pass, a token whose stripped form is a negator, a
  booster or a dampener sets its flag and adds nothing to the score. On the next scored
  token the active flags multiply the base contribution, negation by -1, then the
  booster by 1.8, then the dampener by 0.5, and every flag is cleared afterwards, also
  when the base contribution is zero: an unknown word between three raised flags leaves
  the score as it was and all flags down.
\<close>

theorem score_token_modifiers:
  "score_token st token =
     (let word = strip_chars PUNCT token in
      if word \<in> set NEGATORS then st\<lparr>negation_active := True\<rparr>
      else if word \<in> set BOOSTERS then st\<lparr>booster_active := True\<rparr>
      else if word \<in> set DAMPENERS then st\<lparr>dampener_active := True\<rparr>
      else \<lparr>score = score st
                + base_score word
                  * (if negation_active st then - 1 else 1)
                  * (if booster_active st then 1.8 else 1)
                  * (if dampener_active st then 0.5 else 1),
             negation_active = False, booster_active = False, dampener_active = False\<rparr>)
   \<and> token_pass [] = init_state
   \<and> token_pass (tokens @ [token]) = score_token (token_pass tokens) token
   \<and> score_token \<lparr>score = s, negation_active = True, booster_active = True,
                   dampener_active = True\<rparr> (cps ''thing'')
      = \<lparr>score = s, negation_active = False, booster_active = False,
         dampener_active = False\<rparr>"
proof (intro conjI)
  show "score_token st token =
     (let word = strip_chars PUNCT token in
      if word \<in> set NEGATORS then st\<lparr>negation_active := True\<rparr>
      else if word \<in> set BOOSTERS then st\<lparr>booster_active := True\<rparr>
      else if word \<in> set DAMPENERS then st\<lparr>dampener_active := True\<rparr>
      else \<lparr>score = score st
                + base_score word
                  * (if negation_active st then - 1 else 1)
                  * (if booster_active st then 1.8 else 1)
                  * (if dampener_active st then 0.5 else 1),
             negation_active = False, booster_active = False, dampener_active = False\<rparr>)"
    by (cases st)
      (simp add: score_token_def Let_def apply_negation_def apply_booster_def
        apply_dampener_def)
  show "token_pass [] = init_state" by (simp add: token_pass_def)
  show "token_pass (tokens @ [token]) = score_token (token_pass tokens) token"
    by (simp add: token_pass_def)
  have w: "strip_chars PUNCT (cps ''thing'') = cps ''thing''"
    by (simp add: str_eval PUNCT_def)
  have b: "base_score (cps ''thing'') = 0"
    by (simp add: base_score_def POS_WORDS_def NEG_WORDS_def cps_def)
  show "score_token \<lparr>score = s, negation_active = True, booster_active = True,
                   dampener_active = True\<rparr> (cps ''thing'')
      = \<lparr>score = s, negation_active = False, booster_active = False,
         dampener_active = False\<rparr>"
    unfolding score_token_def w Let_def b
    by (simp add: NEGATORS_def BOOSTERS_def DAMPENERS_def cps_def
        apply_negation_def apply_booster_def apply_dampener_def)
qed

text \<open>
  C3: the length normalisation uses the number \<open>n\<close> of tokens of \<open>tokenize\<close> on the raw
  text, modifier tokens included. With \<open>n = 0\<close> the total is returned undivided, with
  \<open>0 < n \<le> 3\<close> it is divided by \<open>max(1.0, n * 0.6)\<close>, with \<open>n > 3\<close> by the square
  root of \<open>n\<close>; the clamp to the unit interval comes after the division. In
  \<open>not very good\<close> the two modifiers count: the total -1.26 is divided by 1.8.
\<close>

theorem length_normalization:
  "analyze_fallback_score text =
     clamp_unit
       (let n = length (tokenize text);
            total = emoji_hints text
                      (punctuation_emphasis (normalize_text text)
                         (score (token_pass (tokenize text))))
        in if n = 0 then total
           else if n \<le> 3 then total / max 1.0 (real n * 0.6)
           else total / sqrt (real n))
   \<and> length (tokenize (cps ''not very good'')) = 3
   \<and> analyze_fallback_score (cps ''not very good'') = - 1.26 / max 1.0 (3 * 0.6)"
proof (intro conjI)
  have g: "analyze_fallback_score t =
     clamp_unit
       (let n = length (tokenize t);
            total = emoji_hints t
                      (punctuation_emphasis (normalize_text t)
                         (score (token_pass (tokenize t))))
        in if n = 0 then total
           else if n \<le> 3 then total / max 1.0 (real n * 0.6)
           else total / sqrt (real n))" for t
    by (simp add: analyze_fallback_score_def Let_def tokenize_normalize length_normalize_def)
  show "analyze_fallback_score text =
     clamp_unit
       (let n = length (tokenize text);
            total = emoji_hints text
                      (punctuation_emphasis (normalize_text text)
                         (score (token_pass (tokenize text))))
        in if n = 0 then total
           else if n \<le> 3 then total / max 1.0 (real n * 0.6)
           else total / sqrt (real n))"
    by (rule g)
  show "length (tokenize (cps ''not very good'')) = 3"
    by (simp add: not_very_good_tokens)
  have n: "normalize_text (cps ''not very good'') = cps ''not very good''"
    by (simp add: str_eval)
  have p: "punctuation_emphasis (cps ''not very good'') s = s" for s
    by (simp add: punctuation_emphasis_def cps_def)
  show "analyze_fallback_score (cps ''not very good'') = - 1.26 / max 1.0 (3 * 0.6)"
    unfolding g [of "cps ''not very good''"] not_very_good_tokens n p not_very_good_emoji
      not_very_good_pass
    by (simp add: clamp_unit_def)
qed


text \<open>
  C4: after the token pass the engine adds 0.1 for every \<open>!\<close> of the normalized text,
  without a cap, then 0.3 for every glyph of the positive emoji set that occurs in the
  original text and -0.3 for every glyph of the negative set, each glyph once however
  often it occurs. The sum of the three terms is what the length divisor is applied to.
\<close>

theorem punctuation_and_emoji_terms:
  "emoji_hints text (punctuation_emphasis normalized s)
     = s + 0.1 * real (count_list normalized 33)
         + 0.3 * real (card {g \<in> set EMOJI_POS. py_in g text})
         - 0.3 * real (card {g \<in> set EMOJI_NEG. py_in g text})
   \<and> analyze_fallback_score text
     = clamp_unit (length_normalize (tokenize text)
         (score (token_pass (tokenize text))
          + 0.1 * real (count_list (normalize_text text) 33)
          + 0.3 * real (card {g \<in> set EMOJI_POS. py_in g text})
          - 0.3 * real (card {g \<in> set EMOJI_NEG. py_in g text})))
   \<and> emoji_hints [128522, 128522, 128522] 0 = 0.3
   \<and> emoji_hints [128545, 128545] 0 = - 0.3
   \<and> punctuation_emphasis (cps ''wow!!!!!!!!!!!!!!!!!!!!'') 0 = 2"
proof (intro conjI)
  show "emoji_hints text (punctuation_emphasis normalized s)
     = s + 0.1 * real (count_list normalized 33)
         + 0.3 * real (card {g \<in> set EMOJI_POS. py_in g text})
         - 0.3 * real (card {g \<in> set EMOJI_NEG. py_in g text})"
    by (simp add: emoji_hints_closed punctuation_emphasis_closed)
  show "analyze_fallback_score text
     = clamp_unit (length_normalize (tokenize text)
         (score (token_pass (tokenize text))
          + 0.1 * real (count_list (normalize_text text) 33)
          + 0.3 * real (card {g \<in> set EMOJI_POS. py_in g text})
          - 0.3 * real (card {g \<in> set EMOJI_NEG. py_in g text})))"
    by (simp add: analyze_fallback_score_def Let_def tokenize_normalize
        emoji_hints_closed punctuation_emphasis_closed)
  show "emoji_hints [128522, 128522, 128522] 0 = 0.3"
    by (simp add: emoji_hints_def EMOJI_POS_def EMOJI_NEG_def)
  show "emoji_hints [128545, 128545] 0 = - 0.3"
    by (simp add: emoji_hints_def EMOJI_POS_def EMOJI_NEG_def)
  show "punctuation_emphasis (cps ''wow!!!!!!!!!!!!!!!!!!!!'') 0 = 2"
    by (simp add: punctuation_emphasis_def cps_def)
qed

text \<open>
  C10: no token of \<open>tokenize\<close> holds a space, so the stripped form of a token is never
  one of the two-word dampener entries \<open>kind of\<close> and \<open>sort of\<close>; a token is a
  dampener exactly when its stripped form is one of the six single words, and only such
  a token raises the dampener flag.
\<close>

theorem dampener_single_words_only:
  "\<forall>t \<in> set (tokenize text).
     32 \<notin> set t
     \<and> strip_chars PUNCT t \<noteq> cps ''kind of''
     \<and> strip_chars PUNCT t \<noteq> cps ''sort of''
     \<and> (strip_chars PUNCT t \<in> set DAMPENERS \<longleftrightarrow>
          strip_chars PUNCT t \<in> set (map cps
            [''somewhat'', ''slightly'', ''barely'', ''hardly'', ''maybe'', ''perhaps'']))
     \<and> (dampener_active (score_token st t) \<and> \<not> dampener_active st \<longrightarrow>
          strip_chars PUNCT t \<in> set (map cps
            [''somewhat'', ''slightly'', ''barely'', ''hardly'', ''maybe'', ''perhaps'']))"
proof
  fix t
  assume t: "t \<in> set (tokenize text)"
  let ?w = "strip_chars PUNCT t"
  let ?single = "map cps [''somewhat'', ''slightly'', ''barely'', ''hardly'', ''maybe'', ''perhaps'']"
  have a: "32 \<notin> set t"
  proof
    assume "32 \<in> set t"
    with t have "\<not> py_isspace 32" by (rule tokenize_no_space)
    then show False by (simp add: isspace_32)
  qed
  from t have w: "32 \<notin> set ?w" by (rule strip_token_no_space)
  have k: "32 \<in> set (cps ''kind of'')" "32 \<in> set (cps ''sort of'')"
    by (simp_all add: cps_def)
  from w k have b: "?w \<noteq> cps ''kind of''" and c: "?w \<noteq> cps ''sort of''"
    by auto
  have "set DAMPENERS = set ?single \<union> {cps ''kind of'', cps ''sort of''}"
    by (auto simp: DAMPENERS_def)
  with b c have d: "?w \<in> set DAMPENERS \<longleftrightarrow> ?w \<in> set ?single"
    by blast
  have e: "dampener_active (score_token st t) \<and> \<not> dampener_active st \<longrightarrow> ?w \<in> set ?single"
    using d
    by (auto simp: score_token_def Let_def apply_negation_def apply_booster_def
        apply_dampener_def split: if_splits)
  from a b c d e
  show "32 \<notin> set t \<and> ?w \<noteq> cps ''kind of'' \<and> ?w \<noteq> cps ''sort of''
     \<and> (?w \<in> set DAMPENERS \<longleftrightarrow> ?w \<in> set ?single)
     \<and> (dampener_active (score_token st t) \<and> \<not> dampener_active st \<longrightarrow> ?w \<in> set ?single)"
    by blast
qed

theorem dampener_single_words_only_witness:
  "cps ''somewhat'' \<in> set (tokenize (cps ''Somewhat great''))
   \<and> dampener_active (score_token init_state (cps ''somewhat''))
   \<and> \<not> dampener_active init_state
   \<and> strip_chars PUNCT (cps ''somewhat'') \<in> set (map cps
        [''somewhat'', ''slightly'', ''barely'', ''hardly'', ''maybe'', ''perhaps''])"
proof -
  have m: "cps ''somewhat'' \<in> set (tokenize (cps ''Somewhat great''))"
    by (simp add: str_eval)
  have w: "strip_chars PUNCT (cps ''somewhat'') = cps ''somewhat''"
    by (simp add: str_eval PUNCT_def)
  have d: "dampener_active (score_token init_state (cps ''somewhat''))"
    unfolding score_token_def w
    by (simp add: NEGATORS_def BOOSTERS_def DAMPENERS_def cps_def)
  have i: "\<not> dampener_active init_state" by (simp add: init_state_def)
  from dampener_single_words_only [of "cps ''Somewhat great''" init_state] m d i
  show ?thesis by blast
qed


section \<open>Emoji on otherwise neutral text\<close>

lemma score_token_zero:
  assumes "strip_chars PUNCT token \<in> set NEGATORS \<union> set BOOSTERS \<union> set DAMPENERS
           \<or> base_score (strip_chars PUNCT token) = 0"
  shows "score (score_token st token) = score st"
  using assms
  by (auto simp: score_token_def Let_def apply_negation_def apply_booster_def
      apply_dampener_def)

lemma neutral_fold:
  "list_all (\<lambda>token. strip_chars PUNCT token \<in> set NEGATORS \<union> set BOOSTERS \<union> set DAMPENERS
                \<or> base_score (strip_chars PUNCT token) = 0) tokens
   \<Longrightarrow> score (foldl score_token st tokens) = score st"
proof (induction tokens arbitrary: st)
  case Nil
  show ?case by simp
next
  case (Cons t ts)
  then have "score (foldl score_token (score_token st t) ts) = score (score_token st t)"
    by simp
  also have "\<dots> = score st" using Cons.prems by (simp add: score_token_zero)
  finally show ?case by simp
qed

lemma neutral_pass: "otherwise_neutral text \<Longrightarrow> score (token_pass (tokenize text)) = 0"
  unfolding otherwise_neutral_def token_pass_def
  by (drule neutral_fold [where st = init_state]) (simp add: init_state_def)

lemma no_exclamation:
  assumes "33 \<notin> set text"
  shows "count_list (normalize_text text) 33 = 0"
proof -
  have "33 \<notin> set (py_lower text)"
    using assms lower_from_chars [of 33 "[]"] by (auto simp: py_lower_def)
  then have "33 \<notin> set (re_sub_ws (py_lower text))"
    using set_re_sub [of "py_lower text"] by auto
  then have "33 \<notin> set (normalize_text text)"
    using set_strip_with [of py_isspace "re_sub_ws (py_lower text)"]
    by (auto simp: normalize_text_def py_strip_def)
  then show ?thesis by (simp add: count_list_0_iff)
qed

lemma divisor_bounds:
  assumes "length tokens \<le> 8" "0.3 \<le> s"
  shows "0.1 \<le> length_normalize tokens s"
proof -
  let ?n = "length tokens"
  consider "?n = 0" | "0 < ?n" "?n \<le> 3" | "3 < ?n"
    by linarith
  then show ?thesis
  proof cases
    case 1
    with assms show ?thesis by (simp add: length_normalize_def)
  next
    case 2
    then have "real ?n \<le> 3" by simp
    then have d: "max 1 (real ?n * 0.6) \<le> 1.8" by simp
    have p: "0 < max 1 (real ?n * 0.6)" by simp
    have "0.1 * max 1 (real ?n * 0.6) \<le> 0.18" using d by simp
    also have "\<dots> \<le> s" using assms by simp
    finally have "0.1 \<le> s / max 1 (real ?n * 0.6)"
      using p by (simp add: pos_le_divide_eq)
    with 2 show ?thesis by (auto simp: length_normalize_def)
  next
    case 3
    have "real ?n \<le> 3\<^sup>2" using assms by simp
    then have d: "sqrt (real ?n) \<le> 3" by (intro real_le_lsqrt) simp_all
    have "0 < real ?n" using 3 by linarith
    then have p: "0 < sqrt (real ?n)" by (simp only: real_sqrt_gt_0_iff)
    have "0.1 * sqrt (real ?n) \<le> 0.3" using d by simp
    also have "\<dots> \<le> s" using assms by simp
    finally have "0.1 \<le> s / sqrt (real ?n)"
      using p by (simp add: pos_le_divide_eq)
    with 3 show ?thesis by (auto simp: length_normalize_def)
  qed
qed

lemma length_normalize_minus: "length_normalize tokens (- s) = - length_normalize tokens s"
  by (simp add: length_normalize_def)

lemma card_pos_present:
  "\<exists>g\<in>set xs. P g \<Longrightarrow> 1 \<le> card {g \<in> set xs. P g}"
proof -
  assume "\<exists>g\<in>set xs. P g"
  then have "{g \<in> set xs. P g} \<noteq> {}" by auto
  moreover have "finite {g \<in> set xs. P g}" by simp
  ultimately have "0 < card {g \<in> set xs. P g}" by (simp add: card_gt_0_iff)
  then show ?thesis by simp
qed

lemma card_none_present:
  "\<forall>g\<in>set xs. \<not> P g \<Longrightarrow> card {g \<in> set xs. P g} = 0"
  by simp

lemma clamp_ge: "0.1 \<le> x \<Longrightarrow> 0.1 \<le> clamp_unit x"
  by (simp add: clamp_unit_def)

lemma clamp_le: "x \<le> - 0.1 \<Longrightarrow> clamp_unit x \<le> - 0.1"
  by (simp add: clamp_unit_def)

lemmas emoji_eval = emoji_hints_def EMOJI_POS_def EMOJI_NEG_def

lemma long_text_tokens:
  "tokenize (cps ''a a a a a a a a a a a a a a a '' @ [128522])
   = [[97],[97],[97],[97],[97],[97],[97],[97],[97],[97],[97],[97],[97],[97],[97],[128522]]"
  by (simp add: str_eval)

lemma long_text_neutral:
  "otherwise_neutral (cps ''a a a a a a a a a a a a a a a '' @ [128522])"
  unfolding otherwise_neutral_def long_text_tokens
  by (simp add: str_eval lex_eval base_score_def)

lemma long_text_score:
  "analyze_fallback_score (cps ''a a a a a a a a a a a a a a a '' @ [128522]) = 0.075"
proof -
  let ?T = "cps ''a a a a a a a a a a a a a a a '' @ [128522]"
  have n: "normalize_text ?T = ?T" by (simp add: str_eval)
  have p: "punctuation_emphasis ?T 0 = 0"
    by (simp add: punctuation_emphasis_def cps_def)
  have e: "emoji_hints ?T 0 = 0.3" by (simp add: emoji_eval cps_def)
  have s: "sqrt 16 = 4" by (rule real_sqrt_unique) simp_all
  have l: "length_normalize
      [[97],[97],[97],[97],[97],[97],[97],[97],[97],[97],[97],[97],[97],[97],[97],[128522]] 0.3
      = 0.075"
    by (simp add: length_normalize_def s)
  have t: "tokenize (normalize_text ?T) = tokenize ?T" by (rule tokenize_normalize)
  show ?thesis
    unfolding analyze_fallback_score_def Let_def t n
    unfolding neutral_pass [OF long_text_neutral] p e
    unfolding long_text_tokens l
    by (simp add: clamp_unit_def)
qed

lemma okay_pos_tokens:
  "tokenize (cps ''This is okay '' @ [128522]) = [cps ''this'', cps ''is'', cps ''okay'', [128522]]"
  by (simp add: str_eval)

lemma okay_neg_tokens:
  "tokenize (cps ''This is okay '' @ [128545]) = [cps ''this'', cps ''is'', cps ''okay'', [128545]]"
  by (simp add: str_eval)

lemma okay_pos_neutral: "otherwise_neutral (cps ''This is okay '' @ [128522])"
  unfolding otherwise_neutral_def okay_pos_tokens
  by (simp add: str_eval lex_eval base_score_def)

lemma okay_neg_neutral: "otherwise_neutral (cps ''This is okay '' @ [128545])"
  unfolding otherwise_neutral_def okay_neg_tokens
  by (simp add: str_eval lex_eval base_score_def)

text \<open>
  C6, as stated: on a text whose tokens all have zero lexical contribution, a glyph of
  the positive emoji set makes the label positive. With fifteen neutral words before the
  glyph there are sixteen tokens, the emoji term 0.3 is divided by 4, and the label is
  neutral.
\<close>

theorem positive_emoji_long_text_neutral:
  "otherwise_neutral (cps ''a a a a a a a a a a a a a a a '' @ [128522])
   \<and> [128522] \<in> set EMOJI_POS
   \<and> py_in [128522] (cps ''a a a a a a a a a a a a a a a '' @ [128522])
   \<and> analyze_fallback (cps ''a a a a a a a a a a a a a a a '' @ [128522]) = ''neutral''"
proof (intro conjI)
  show "otherwise_neutral (cps ''a a a a a a a a a a a a a a a '' @ [128522])"
    by (rule long_text_neutral)
  show "[128522] \<in> set EMOJI_POS" by (simp add: EMOJI_POS_def)
  show "py_in [128522] (cps ''a a a a a a a a a a a a a a a '' @ [128522])"
    by (simp add: cps_def)
  show "analyze_fallback (cps ''a a a a a a a a a a a a a a a '' @ [128522]) = ''neutral''"
    by (simp add: analyze_fallback_def long_text_score label_from_score_default_def
        label_from_score_def)
qed

text \<open>Both emoji kinds together, or exclamation marks beside a negative glyph, cancel.\<close>

lemma mixed_emoji_neutral: "analyze_fallback [128522, 32, 128545] = ''neutral''"
proof -
  have t: "tokenize [128522, 32, 128545] = [[128522], [128545]]" by (simp add: str_eval)
  have n: "normalize_text [128522, 32, 128545] = [128522, 32, 128545]" by (simp add: str_eval)
  have o: "otherwise_neutral [128522, 32, 128545]"
    unfolding otherwise_neutral_def t by (simp add: str_eval lex_eval base_score_def)
  have tn: "tokenize (normalize_text [128522, 32, 128545]) = [[128522], [128545]]"
    by (simp only: tokenize_normalize t)
  have e: "emoji_hints [128522, 32, 128545] (punctuation_emphasis [128522, 32, 128545] 0) = 0"
    by (simp add: emoji_eval punctuation_emphasis_def)
  have "analyze_fallback_score [128522, 32, 128545] = 0"
    unfolding analyze_fallback_score_def Let_def tn n
    using neutral_pass [OF o] e
    by (simp add: t length_normalize_def clamp_unit_def)
  then show ?thesis
    by (simp add: analyze_fallback_def label_from_score_default_def label_from_score_def)
qed

lemma exclaimed_negative_emoji_neutral:
  "analyze_fallback (cps ''okay!! '' @ [128545]) = ''neutral''"
proof -
  let ?T = "cps ''okay!! '' @ [128545]"
  have t: "tokenize ?T = [cps ''okay!!'', [128545]]" by (simp add: str_eval)
  have n: "normalize_text ?T = ?T" by (simp add: str_eval)
  have o: "otherwise_neutral ?T"
    unfolding otherwise_neutral_def t by (simp add: str_eval lex_eval base_score_def)
  have tn: "tokenize (normalize_text ?T) = [cps ''okay!!'', [128545]]"
    by (simp only: tokenize_normalize t)
  have e: "emoji_hints ?T (punctuation_emphasis ?T 0) = - 0.1"
    by (simp add: emoji_eval punctuation_emphasis_def cps_def)
  have "analyze_fallback_score ?T = - 0.1 / 1.2"
    unfolding analyze_fallback_score_def Let_def tn n
    unfolding neutral_pass [OF o] e
    by (simp add: t length_normalize_def clamp_unit_def)
  then show ?thesis
    by (simp add: analyze_fallback_def label_from_score_default_def label_from_score_def)
qed

text \<open>
  A word of the negative lexicon written with the Kelvin sign \<open>U+212A\<close> is lower-cased to
  \<open>broken\<close> and scored, so the text is not otherwise neutral and the glyph does not decide.
\<close>

lemma lower_cp_kelvin: "lower_cp 8490 = 107"
  by (simp add: lower_table_eval)

lemma kelvin_broken_negative:
  "analyze_fallback [66, 82, 79, 8490, 69, 78, 32, 128522] = ''negative''"
proof -
  let ?T = "[66, 82, 79, 8490, 69, 78, 32, 128522]"
  have n: "normalize_text ?T = cps ''broken '' @ [128522]"
    by (simp add: str_eval lower_cp_kelvin)
  have t: "tokenize (cps ''broken '' @ [128522]) = [cps ''broken'', [128522]]"
    by (simp add: str_eval)
  have p: "score (token_pass [cps ''broken'', [128522]]) = - 0.7"
    by (simp add: pass_eval str_eval lex_eval)
  have e: "emoji_hints ?T (punctuation_emphasis (cps ''broken '' @ [128522]) (- 0.7)) = - 0.4"
    by (simp add: emoji_eval punctuation_emphasis_def cps_def)
  have "analyze_fallback_score ?T = - 0.4 / 1.2"
    unfolding analyze_fallback_score_def Let_def n
    unfolding t p e
    by (simp add: length_normalize_def clamp_unit_def)
  then show ?thesis
    by (simp add: analyze_fallback_def label_from_score_default_def label_from_score_def)
qed

text \<open>
  C6, amended: on a text of at most eight tokens whose tokens all have zero lexical
  contribution, if a glyph of the positive emoji set occurs in the original text and no
  glyph of the negative set does, the label is positive; if a glyph of the negative set
  occurs, no glyph of the positive set does and the text holds no exclamation mark, the
  label is negative.
\<close>

theorem emoji_decides_short_neutral_text:
  "(otherwise_neutral text \<and> length (tokenize text) \<le> 8
      \<and> (\<exists>g\<in>set EMOJI_POS. py_in g text) \<and> (\<forall>g\<in>set EMOJI_NEG. \<not> py_in g text)
    \<longrightarrow> analyze_fallback text = ''positive'')
   \<and> (otherwise_neutral text \<and> length (tokenize text) \<le> 8
      \<and> (\<exists>g\<in>set EMOJI_NEG. py_in g text) \<and> (\<forall>g\<in>set EMOJI_POS. \<not> py_in g text)
      \<and> 33 \<notin> set text
    \<longrightarrow> analyze_fallback text = ''negative'')"
proof (intro conjI impI)
  let ?e = "real (count_list (normalize_text text) 33)"
  let ?p = "real (card {g \<in> set EMOJI_POS. py_in g text})"
  let ?n = "real (card {g \<in> set EMOJI_NEG. py_in g text})"
  have sc: "otherwise_neutral text \<Longrightarrow> analyze_fallback_score text
      = clamp_unit (length_normalize (tokenize text) (0.1 * ?e + 0.3 * ?p - 0.3 * ?n))"
    by (simp add: analyze_fallback_score_def Let_def tokenize_normalize
        emoji_hints_closed punctuation_emphasis_closed neutral_pass)
  {
    assume a: "otherwise_neutral text \<and> length (tokenize text) \<le> 8
      \<and> (\<exists>g\<in>set EMOJI_POS. py_in g text) \<and> (\<forall>g\<in>set EMOJI_NEG. \<not> py_in g text)"
    then have "1 \<le> card {g \<in> set EMOJI_POS. py_in g text}"
      by (intro card_pos_present) simp
    then have p: "1 \<le> ?p" by simp
    from a have n: "?n = 0" by (simp add: card_none_present)
    have e: "0 \<le> ?e" by simp
    from p n e have "0.3 \<le> 0.1 * ?e + 0.3 * ?p - 0.3 * ?n" by linarith
    with a have "0.1 \<le> length_normalize (tokenize text) (0.1 * ?e + 0.3 * ?p - 0.3 * ?n)"
      by (intro divisor_bounds) simp_all
    then have "0.1 \<le> analyze_fallback_score text"
      using a by (simp only: sc clamp_ge)
    then show "analyze_fallback text = ''positive''"
      by (simp add: analyze_fallback_def label_from_score_default_def label_from_score_def)
  }
  {
    assume a: "otherwise_neutral text \<and> length (tokenize text) \<le> 8
      \<and> (\<exists>g\<in>set EMOJI_NEG. py_in g text) \<and> (\<forall>g\<in>set EMOJI_POS. \<not> py_in g text)
      \<and> 33 \<notin> set text"
    then have "1 \<le> card {g \<in> set EMOJI_NEG. py_in g text}"
      by (intro card_pos_present) simp
    then have n: "1 \<le> ?n" by simp
    from a have p: "?p = 0" by (simp add: card_none_present)
    from a have e: "?e = 0" by (simp add: no_exclamation)
    have eq: "0.1 * ?e + 0.3 * ?p - 0.3 * ?n = - (0.3 * ?n)" using p e by argo
    from n have "0.3 \<le> 0.3 * ?n" by linarith
    with a have "0.1 \<le> length_normalize (tokenize text) (0.3 * ?n)"
      by (intro divisor_bounds) simp_all
    then have "length_normalize (tokenize text) (- (0.3 * ?n)) \<le> - 0.1"
      by (simp add: length_normalize_minus)
    then have "clamp_unit (length_normalize (tokenize text) (0.1 * ?e + 0.3 * ?p - 0.3 * ?n)) \<le> - 0.1"
      by (simp only: eq clamp_le)
    then have "analyze_fallback_score text \<le> - 0.1"
      using a by (simp only: sc)
    then show "analyze_fallback text = ''negative''"
      by (simp add: analyze_fallback_def label_from_score_default_def label_from_score_def)
  }
qed

theorem emoji_decides_short_neutral_text_witness:
  "otherwise_neutral (cps ''This is okay '' @ [128522])
   \<and> length (tokenize (cps ''This is okay '' @ [128522])) \<le> 8
   \<and> list_ex (\<lambda>g. py_in g (cps ''This is okay '' @ [128522])) EMOJI_POS
   \<and> list_all (\<lambda>g. \<not> py_in g (cps ''This is okay '' @ [128522])) EMOJI_NEG
   \<and> analyze_fallback (cps ''This is okay '' @ [128522]) = ''positive''
   \<and> otherwise_neutral (cps ''This is okay '' @ [128545])
   \<and> length (tokenize (cps ''This is okay '' @ [128545])) \<le> 8
   \<and> list_ex (\<lambda>g. py_in g (cps ''This is okay '' @ [128545])) EMOJI_NEG
   \<and> list_all (\<lambda>g. \<not> py_in g (cps ''This is okay '' @ [128545])) EMOJI_POS
   \<and> 33 \<notin> set (cps ''This is okay '' @ [128545])
   \<and> analyze_fallback (cps ''This is okay '' @ [128545]) = ''negative''"
proof -
  let ?P = "cps ''This is okay '' @ [128522]"
  let ?N = "cps ''This is okay '' @ [128545]"
  have p1: "length (tokenize ?P) \<le> 8" by (simp add: okay_pos_tokens)
  have p2: "list_ex (\<lambda>g. py_in g ?P) EMOJI_POS" by (simp add: EMOJI_POS_def cps_def)
  have p3: "list_all (\<lambda>g. \<not> py_in g ?P) EMOJI_NEG" by (simp add: EMOJI_NEG_def cps_def)
  have n1: "length (tokenize ?N) \<le> 8" by (simp add: okay_neg_tokens)
  have n2: "list_ex (\<lambda>g. py_in g ?N) EMOJI_NEG" by (simp add: EMOJI_NEG_def cps_def)
  have n3: "list_all (\<lambda>g. \<not> py_in g ?N) EMOJI_POS" by (simp add: EMOJI_POS_def cps_def)
  have n4: "33 \<notin> set ?N" by (simp add: cps_def)
  have "analyze_fallback ?P = ''positive''"
    using emoji_decides_short_neutral_text [of ?P] okay_pos_neutral p1 p2 p3
    unfolding list_ex_iff list_all_iff by blast
  moreover have "analyze_fallback ?N = ''negative''"
    using emoji_decides_short_neutral_text [of ?N] okay_neg_neutral n1 n2 n3 n4
    unfolding list_ex_iff list_all_iff by blast
  ultimately show ?thesis
    using okay_pos_neutral okay_neg_neutral p1 p2 p3 n1 n2 n3 n4 by blast
qed

section \<open>The strategy selector\<close>

lemma analyze_fallback_label:
  "analyze_fallback text \<in> {''positive'', ''negative'', ''neutral''}"
  by (simp add: analyze_fallback_def label_from_score_default_def label_from_score_def)

lemma empty_text_score: "analyze_fallback_score [] = 0"
proof -
  have n: "normalize_text [] = []" by (simp add: str_eval)
  have t: "tokenize [] = []" by (simp add: str_eval)
  have p: "score (token_pass []) = 0" by (simp add: token_pass_def init_state_def)
  have e: "emoji_hints [] (punctuation_emphasis [] 0) = 0"
    by (simp add: emoji_eval punctuation_emphasis_def)
  show ?thesis
    unfolding analyze_fallback_score_def Let_def n t p e
    by (simp add: length_normalize_def clamp_unit_def)
qed

lemma load_model_once_none:
  assumes "MODEL_CACHE st = None"
    and "MODEL_LOADED st \<or> path_exists env model_path = Inr False
         \<or> (path_exists env model_path = Inr True
             \<and> (\<exists>e. load_model env model_path = Inl e))"
  shows "load_model_once env model_path st = (Inr None, st\<lparr>MODEL_LOADED := True\<rparr>)"
  using assms by (cases st) (auto simp: load_model_once_def Let_def)

text \<open>
  When the probe answers, the selector degrades as intended: with no model cached, a
  missing file, a load that raises, or an earlier failed attempt all give the fallback.
\<close>

lemma no_model_falls_back:
  assumes "MODEL_CACHE st = None"
    and "MODEL_LOADED st \<or> path_exists env model_path = Inr False
         \<or> (path_exists env model_path = Inr True
             \<and> (\<exists>e. load_model env model_path = Inl e))"
  shows "analyze_strategy env text model_path st
           = (Inr (analyze_fallback text), st\<lparr>MODEL_LOADED := True\<rparr>)"
    and "analyze_strategy_score env text model_path st
           = (Inr (analyze_fallback_score text), st\<lparr>MODEL_LOADED := True\<rparr>)"
  using load_model_once_none [OF assms]
  by (simp_all add: analyze_strategy_def analyze_strategy_score_def)

lemma load_failure_falls_back_example:
  "analyze_strategy broken_artifact [] ''models/sentiment.joblib'' initial_module
       = (Inr ''neutral'', \<lparr>MODEL_CACHE = None, MODEL_LOADED = True\<rparr>)
   \<and> analyze_strategy_score broken_artifact [] ''models/sentiment.joblib'' initial_module
       = (Inr 0, \<lparr>MODEL_CACHE = None, MODEL_LOADED = True\<rparr>)"
proof -
  have c: "MODEL_CACHE (initial_module :: nat module_state) = None"
    by (simp add: initial_module_def)
  have f: "MODEL_LOADED (initial_module :: nat module_state)
      \<or> path_exists broken_artifact ''models/sentiment.joblib'' = Inr False
      \<or> (path_exists broken_artifact ''models/sentiment.joblib'' = Inr True
         \<and> (\<exists>e. load_model broken_artifact ''models/sentiment.joblib'' = Inl e))"
    by (simp add: broken_artifact_def)
  have e: "analyze_fallback [] = ''neutral''"
    by (simp add: analyze_fallback_def empty_text_score label_from_score_default_def
        label_from_score_def)
  from no_model_falls_back [OF c f, of "[]"] e empty_text_score
  show ?thesis by (simp add: initial_module_def)
qed

lemma exists_error_propagates:
  assumes "\<not> MODEL_LOADED st" and "path_exists env model_path = Inl e"
  shows "analyze_strategy env text model_path st = (Inl e, st\<lparr>MODEL_LOADED := True\<rparr>)"
    and "analyze_strategy_score env text model_path st = (Inl e, st\<lparr>MODEL_LOADED := True\<rparr>)"
  using assms
  by (simp_all add: analyze_strategy_def analyze_strategy_score_def load_model_once_def Let_def)

text \<open>
  C9: a missing or unloadable model artifact never surfaces as an error of
  \<open>analyze_strategy\<close> or \<open>analyze_strategy_score\<close>. The code does not keep this: the
  probe \<open>Path(model_path).exists()\<close> stands outside the \<open>try\<close> block. On first use with
  a model path of 256 characters the \<open>OSError\<close> of the probe is the outcome of both
  entry points, with the attempt recorded; the next call, in the state left behind,
  answers with the fallback.
\<close>

theorem exists_error_escapes:
  "analyze_strategy name_limit_filesystem (cps ''I love this!'')
       (replicate 256 (CHR ''a'')) initial_module
     = (Inl (Exception ''OSError: File name too long''),
        \<lparr>MODEL_CACHE = None, MODEL_LOADED = True\<rparr>)
   \<and> analyze_strategy_score name_limit_filesystem (cps ''I love this!'')
       (replicate 256 (CHR ''a'')) initial_module
     = (Inl (Exception ''OSError: File name too long''),
        \<lparr>MODEL_CACHE = None, MODEL_LOADED = True\<rparr>)
   \<and> analyze_strategy name_limit_filesystem []
       (replicate 256 (CHR ''a'')) \<lparr>MODEL_CACHE = None, MODEL_LOADED = True\<rparr>
     = (Inr ''neutral'', \<lparr>MODEL_CACHE = None, MODEL_LOADED = True\<rparr>)"
proof -
  have p: "path_exists name_limit_filesystem (replicate 256 (CHR ''a''))
      = Inl (Exception ''OSError: File name too long'')"
    by (simp add: name_limit_filesystem_def)
  have n: "\<not> MODEL_LOADED (initial_module :: nat module_state)"
    by (simp add: initial_module_def)
  have e: "analyze_fallback [] = ''neutral''"
    by (simp add: analyze_fallback_def empty_text_score label_from_score_default_def
        label_from_score_def)
  have l: "analyze_strategy name_limit_filesystem []
       (replicate 256 (CHR ''a'')) \<lparr>MODEL_CACHE = None, MODEL_LOADED = True\<rparr>
     = (Inr ''neutral'', \<lparr>MODEL_CACHE = None, MODEL_LOADED = True\<rparr>)"
    by (simp add: analyze_strategy_def load_model_once_def e)
  from exists_error_propagates [OF n p] l
  show ?thesis by (simp add: initial_module_def)
qed

end
